theory Spec2Isabelle
  imports "HOL-Library.Log_Nat"
begin

section \<open>JavaScript numbers\<close>

text \<open>
  A price or an amount is a JavaScript number: an IEEE 754 binary64 value. A finite value
  is given by the rational number it stands for; the others are \<open>NaN\<close> and the two
  infinities. The type has every rational, also those that are not binary64 values and
  so never occur; every result of \<open>+\<close> is one that is. The two zeros are one value
  here: they differ neither in \<open>+\<close> with a non-zero number nor in \<open><\<close> and
  \<open><=\<close>, the operations the code applies.
\<close>

datatype number = Fin rat | NaN | Infinity | MinusInfinity

text \<open>
  The binary exponent of a non-zero rational: the \<open>e\<close> with
  \<open>2^e \<le> |r| < 2^(e+1)\<close>.
\<close>

definition exponent :: "rat \<Rightarrow> int" where
  "exponent r =
     (if 1 \<le> \<bar>r\<bar> then bitlen \<lfloor>\<bar>r\<bar>\<rfloor> - 1 else - bitlen (\<lceil>1 / \<bar>r\<bar>\<rceil> - 1))"

text \<open>Rounding to the nearest integer, a tie to the even one.\<close>

definition round_half_even :: "rat \<Rightarrow> int" where
  "round_half_even x =
     (let f = \<lfloor>x\<rfloor>; d = x - of_int f
      in if d < 1 / 2 then f else if 1 / 2 < d then f + 1 else if even f then f else f + 1)"

text \<open>
  Rounding an exact result to binary64, to nearest with ties to even: 53 significant
  bits, the smallest unit \<open>2^-1074\<close>, and an infinity from \<open>2^1024\<close> on.
\<close>

definition round_double :: "rat \<Rightarrow> number" where
  "round_double r =
     (if r = 0 then Fin 0
      else let e = max (exponent r - 52) (- 1074);
               v = of_int (round_half_even (r / 2 powi e)) * 2 powi e
           in if 2 ^ 1024 \<le> v then Infinity
              else if v \<le> - (2 ^ 1024) then MinusInfinity
              else Fin v)"

text \<open>The operators \<open>+\<close>, \<open><\<close> and \<open><=\<close> on numbers.\<close>

fun js_plus :: "number \<Rightarrow> number \<Rightarrow> number" where
  "js_plus (Fin a) (Fin b) = round_double (a + b)"
| "js_plus NaN y = NaN"
| "js_plus x NaN = NaN"
| "js_plus Infinity MinusInfinity = NaN"
| "js_plus MinusInfinity Infinity = NaN"
| "js_plus Infinity y = Infinity"
| "js_plus x Infinity = Infinity"
| "js_plus MinusInfinity y = MinusInfinity"
| "js_plus x MinusInfinity = MinusInfinity"

fun js_less :: "number \<Rightarrow> number \<Rightarrow> bool" where
  "js_less (Fin a) (Fin b) = (a < b)"
| "js_less NaN y = False"
| "js_less x NaN = False"
| "js_less x MinusInfinity = False"
| "js_less Infinity y = False"
| "js_less MinusInfinity y = True"
| "js_less x Infinity = True"

fun js_le :: "number \<Rightarrow> number \<Rightarrow> bool" where
  "js_le (Fin a) (Fin b) = (a \<le> b)"
| "js_le NaN y = False"
| "js_le x NaN = False"
| "js_le MinusInfinity y = True"
| "js_le x Infinity = True"
| "js_le x MinusInfinity = False"
| "js_le Infinity y = False"

text \<open>
  The whole numbers on which adding the increment of 10 is exact: those of magnitude
  below \<open>2^53 - 10\<close>.
\<close>

definition safe_amount :: "number \<Rightarrow> bool" where
  "safe_amount n =
     (case n of Fin r \<Rightarrow> r = of_int \<lfloor>r\<rfloor> \<and> \<bar>r\<bar> < 2 ^ 53 - 10 | _ \<Rightarrow> False)"

section \<open>The Auction model (models/Auction.js)\<close>

text \<open>
  Prices and amounts are numbers as above. A reading of \<open>Date.now()\<close> is a whole
  number of milliseconds of magnitude at most \<open>8.64 * 10^15\<close>, below \<open>2^53\<close>, and
  the registry passes the duration 300000, so the arithmetic on times is exact and times
  are modelled as \<open>int\<close>. A bidder identifier is a string; \<open>null\<close> is \<open>None\<close>.
\<close>

record bid =
  bid_userId :: string
  bid_amount :: number
  bid_timestamp :: int

record auction =
  auction_id :: string
  title :: string
  startingPrice :: number
  currentBid :: number
  highestBidder :: "string option"
  endTime :: int
  biddingLock :: bool
  bidHistory :: "bid list"
  minBidIncrement :: number

text \<open>
  The constructor: \<open>now\<close> is the value \<open>Date.now()\<close> returns while it runs.
\<close>

definition Auction_new ::
  "string \<Rightarrow> string \<Rightarrow> number \<Rightarrow> int \<Rightarrow> int \<Rightarrow> auction" where
  "Auction_new i t price duration now =
     \<lparr> auction_id = i, title = t, startingPrice = price, currentBid = price,
       highestBidder = None, endTime = now + duration, biddingLock = False,
       bidHistory = [], minBidIncrement = Fin 10 \<rparr>"

definition isActive :: "auction \<Rightarrow> int \<Rightarrow> bool" where
  "isActive a now = (now < endTime a)"

definition getTimeRemaining :: "auction \<Rightarrow> int \<Rightarrow> int" where
  "getTimeRemaining a now = max 0 (endTime a - now)"

definition getMinimumNextBid :: "auction \<Rightarrow> number" where
  "getMinimumNextBid a = js_plus (currentBid a) (minBidIncrement a)"

text \<open>
  One call of \<open>placeBid\<close> reads the clock up to three times: in the first
  \<open>isActive()\<close>, in the \<open>isActive()\<close> inside the \<open>try\<close> block, and for the
  timestamp of the history entry. The three readings are an input of the model.
\<close>

record bid_clock =
  now_check :: int
  now_recheck :: int
  now_stamp :: int

text \<open>
  The objects \<open>placeBid\<close> returns, one constructor for each shape of object literal:
  \<^item> \<open>Auction_has_ended\<close>: \<open>{success: false, message: 'Auction has ended'}\<close>;
  \<^item> \<open>Bid_must_be_at_least m\<close>: \<open>{success: false, message: `Bid must be at least m`,
    minimumBid: m}\<close>;
  \<^item> \<open>Another_bid_is_being_processed\<close>: \<open>{success: false, message: 'Another bid ...'}\<close>;
  \<^item> \<open>Outbid c h\<close>: \<open>{success: false, message: `Outbid! Current bid is c`,
    currentBid: c, highestBidder: h}\<close>;
  \<^item> \<open>Bid_placed_successfully n p pb h\<close>: \<open>{success: true, message: ..., newBid: n,
    previousBid: p, previousBidder: pb, highestBidder: h}\<close>.
\<close>

datatype bid_result =
    Auction_has_ended
  | Bid_must_be_at_least number
  | Another_bid_is_being_processed
  | Outbid number "string option"
  | Bid_placed_successfully number number "string option" string

text \<open>Reading a property of the returned object; \<open>None\<close> is \<open>undefined\<close>.\<close>

fun success :: "bid_result \<Rightarrow> bool" where
  "success (Bid_placed_successfully n p pb h) = True"
| "success r = False"

fun result_minimumBid :: "bid_result \<Rightarrow> number option" where
  "result_minimumBid (Bid_must_be_at_least m) = Some m"
| "result_minimumBid r = None"

fun result_currentBid :: "bid_result \<Rightarrow> number option" where
  "result_currentBid (Outbid c h) = Some c"
| "result_currentBid r = None"

fun result_newBid :: "bid_result \<Rightarrow> number option" where
  "result_newBid (Bid_placed_successfully n p pb h) = Some n"
| "result_newBid r = None"

fun result_previousBid :: "bid_result \<Rightarrow> number option" where
  "result_previousBid (Bid_placed_successfully n p pb h) = Some p"
| "result_previousBid r = None"

text \<open>\<open>result.previousBidder\<close>: \<open>undefined\<close> and \<open>null\<close> are both \<open>None\<close>.\<close>

fun result_previousBidder :: "bid_result \<Rightarrow> string option" where
  "result_previousBidder (Bid_placed_successfully n p pb h) = pb"
| "result_previousBidder r = None"

fun result_highestBidder :: "bid_result \<Rightarrow> string option" where
  "result_highestBidder (Bid_placed_successfully n p pb h) = Some h"
| "result_highestBidder (Outbid c h) = h"
| "result_highestBidder r = None"

text \<open>
  The \<open>return\<close> statement a call leaves through, in the order of the source. This is a
  label of the model only: the first and the fourth return the same object.
\<close>

datatype return_site =
    Ret_ended
  | Ret_too_low
  | Ret_lock_busy
  | Ret_locked_ended
  | Ret_locked_outbid
  | Ret_committed

text \<open>The \<open>finally\<close> block: whatever the \<open>try\<close> block returns, the flag is reset.\<close>

definition finally_unlock ::
  "return_site \<times> bid_result \<times> auction \<Rightarrow> return_site \<times> bid_result \<times> auction" where
  "finally_unlock x = (case x of (site, r, a) \<Rightarrow> (site, r, a\<lparr>biddingLock := False\<rparr>))"

definition placeBid_run ::
  "auction \<Rightarrow> bid_clock \<Rightarrow> string \<Rightarrow> number \<Rightarrow> return_site \<times> bid_result \<times> auction" where
  "placeBid_run a clk user bidAmount =
     (if \<not> isActive a (now_check clk) then (Ret_ended, Auction_has_ended, a)
      else let minBid = getMinimumNextBid a in
        if js_less bidAmount minBid then (Ret_too_low, Bid_must_be_at_least minBid, a)
        else if biddingLock a then (Ret_lock_busy, Another_bid_is_being_processed, a)
        else let a1 = a\<lparr>biddingLock := True\<rparr> in
          finally_unlock
            (if \<not> isActive a1 (now_recheck clk) then (Ret_locked_ended, Auction_has_ended, a1)
             else let currentMinBid = getMinimumNextBid a1 in
               if js_less bidAmount currentMinBid
               then (Ret_locked_outbid, Outbid (currentBid a1) (highestBidder a1), a1)
               else let previousBidder = highestBidder a1;
                        previousBid = currentBid a1;
                        a2 = a1\<lparr>currentBid := bidAmount, highestBidder := Some user\<rparr>;
                        a3 = a2\<lparr>bidHistory := bidHistory a2 @
                               [\<lparr>bid_userId = user, bid_amount = bidAmount,
                                 bid_timestamp = now_stamp clk\<rparr>]\<rparr>
                    in (Ret_committed,
                        Bid_placed_successfully bidAmount previousBid previousBidder user,
                        a3)))"

text \<open>What the caller sees: the returned object and the auction after the call.\<close>

definition placeBid ::
  "auction \<Rightarrow> bid_clock \<Rightarrow> string \<Rightarrow> number \<Rightarrow> bid_result \<times> auction" where
  "placeBid a clk user bidAmount = snd (placeBid_run a clk user bidAmount)"

text \<open>A sequence of calls on one auction, with the list of the objects returned.\<close>

type_synonym bid_call = "bid_clock \<times> string \<times> number"

fun placeBids :: "auction \<Rightarrow> bid_call list \<Rightarrow> bid_result list \<times> auction" where
  "placeBids a [] = ([], a)"
| "placeBids a ((clk, user, bidAmount) # calls) =
     (case placeBid a clk user bidAmount of
        (r, a') \<Rightarrow> (case placeBids a' calls of (rs, a'') \<Rightarrow> (r # rs, a'')))"


text \<open>The calls whose amounts are such whole numbers.\<close>

definition safe_calls :: "bid_call list \<Rightarrow> bool" where
  "safe_calls calls = list_all (\<lambda>c. safe_amount (snd (snd c))) calls"

text \<open>
  \<open>getState\<close> builds one object literal; \<open>timeRemaining\<close> is evaluated before
  \<open>isActive\<close>, each with its own reading of the clock.
\<close>

record state_clock =
  now_remaining :: int
  now_active :: int

record snapshot =
  snap_id :: string
  snap_title :: string
  snap_startingPrice :: number
  snap_currentBid :: number
  snap_highestBidder :: "string option"
  snap_endTime :: int
  snap_timeRemaining :: int
  snap_isActive :: bool
  snap_minBidIncrement :: number

definition getState :: "auction \<Rightarrow> state_clock \<Rightarrow> snapshot" where
  "getState a clk =
     \<lparr> snap_id = auction_id a, snap_title = title a, snap_startingPrice = startingPrice a,
       snap_currentBid = currentBid a, snap_highestBidder = highestBidder a,
       snap_endTime = endTime a,
       snap_timeRemaining = getTimeRemaining a (now_remaining clk),
       snap_isActive = isActive a (now_active clk),
       snap_minBidIncrement = minBidIncrement a \<rparr>"

text \<open>
  The methods of an Auction as operations on its state. Only \<open>placeBid\<close> assigns to a
  field; the other four methods contain no assignment.
\<close>

datatype auction_op =
    Op_placeBid bid_clock string number
  | Op_getState state_clock
  | Op_isActive int
  | Op_getTimeRemaining int
  | Op_getMinimumNextBid

fun apply_op :: "auction \<Rightarrow> auction_op \<Rightarrow> auction" where
  "apply_op a (Op_placeBid clk user bidAmount) = snd (placeBid a clk user bidAmount)"
| "apply_op a (Op_getState clk) = a"
| "apply_op a (Op_isActive now) = a"
| "apply_op a (Op_getTimeRemaining now) = a"
| "apply_op a Op_getMinimumNextBid = a"

fun apply_ops :: "auction \<Rightarrow> auction_op list \<Rightarrow> auction" where
  "apply_ops a [] = a"
| "apply_ops a (x # xs) = apply_ops (apply_op a x) xs"

text \<open>The readings of the clock an operation may take.\<close>

fun op_reads :: "auction_op \<Rightarrow> int list" where
  "op_reads (Op_placeBid clk user bidAmount) = [now_check clk, now_recheck clk, now_stamp clk]"
| "op_reads (Op_getState clk) = [now_remaining clk, now_active clk]"
| "op_reads (Op_isActive now) = [now]"
| "op_reads (Op_getTimeRemaining now) = [now]"
| "op_reads Op_getMinimumNextBid = []"

definition after_deadline :: "auction \<Rightarrow> auction_op list \<Rightarrow> bool" where
  "after_deadline a ops = list_all (\<lambda>x. list_all (\<lambda>t. endTime a \<le> t) (op_reads x)) ops"

section \<open>The algorithm of the specification (section 4.1)\<close>

text \<open>
  The three steps as the specification words them, on the same state: the deadline is
  \<open>endTime\<close>, the leader is \<open>highestBidder\<close>, the history is \<open>bidHistory\<close>, the
  increment is \<open>minBidIncrement\<close>. There is one \<open>now\<close> and no lock flag. The prices of
  the specification are integers, so its sum \<open>currentBid + minIncrement\<close> is the exact
  one.
\<close>

datatype BidResult =
    AUCTION_CLOSED
  | BID_TOO_LOW number number
  | Accepted number string "string option" number

fun exact_plus :: "number \<Rightarrow> number \<Rightarrow> number" where
  "exact_plus (Fin a) (Fin b) = Fin (a + b)"
| "exact_plus x y = js_plus x y"

definition spec_placeBid ::
  "auction \<Rightarrow> int \<Rightarrow> string \<Rightarrow> number \<Rightarrow> BidResult \<times> auction" where
  "spec_placeBid a now bidderId amount =
     (if endTime a \<le> now then (AUCTION_CLOSED, a)
      else let minBid = exact_plus (currentBid a) (minBidIncrement a) in
        if js_less amount minBid then (BID_TOO_LOW (currentBid a) minBid, a)
        else (Accepted amount bidderId (highestBidder a) (currentBid a),
              a\<lparr>currentBid := amount, highestBidder := Some bidderId,
                bidHistory := bidHistory a @
                  [\<lparr>bid_userId = bidderId, bid_amount = amount, bid_timestamp = now\<rparr>]\<rparr>))"

text \<open>
  The object the code returns, read as a result of the specification: \<open>accepted\<close> is
  \<open>success\<close>, \<open>minBid\<close> is \<open>minimumBid\<close>, \<open>leaderId\<close> is \<open>highestBidder\<close>,
  \<open>previousLeader\<close> is \<open>previousBidder\<close>. A rejection for a low bid is a result of the
  specification only with both \<open>currentBid\<close> and \<open>minimumBid\<close>; the code has no
  object with both, and its lock rejection has no counterpart.
\<close>

fun as_BidResult :: "bid_result \<Rightarrow> BidResult option" where
  "as_BidResult Auction_has_ended = Some AUCTION_CLOSED"
| "as_BidResult (Bid_placed_successfully n p pb h) = Some (Accepted n h pb p)"
| "as_BidResult (Bid_must_be_at_least m) = None"
| "as_BidResult Another_bid_is_being_processed = None"
| "as_BidResult (Outbid c h) = None"

section \<open>The registry (services/AuctionService.js)\<close>

text \<open>
  A value passed as \<open>bidAmount\<close>, as far as \<open>typeof\<close> tells values apart: a number,
  \<open>NaN\<close> and the infinities among them, or a value of another type.
\<close>

datatype js_value = JNumber number | JString string | JBoolean bool | JNull | JUndefined

type_synonym registry = "string \<rightharpoonup> auction"

definition getAuction :: "registry \<Rightarrow> string \<Rightarrow> state_clock \<Rightarrow> snapshot option" where
  "getAuction reg auctionId clk =
     (case reg auctionId of Some a \<Rightarrow> Some (getState a clk) | None \<Rightarrow> None)"

text \<open>
  The object \<open>AuctionService.placeBid\<close> returns: one of its own two rejections with
  their status codes 404 and 400, or the Auction's object spread into a new one with
  \<open>auctionId\<close> and \<open>statusCode\<close> added.
\<close>

datatype service_result =
    Auction_not_found
  | Invalid_bid_amount
  | Bid_outcome bid_result string nat

definition service_placeBid ::
  "registry \<Rightarrow> bid_clock \<Rightarrow> string \<Rightarrow> string \<Rightarrow> js_value \<Rightarrow> service_result \<times> registry" where
  "service_placeBid reg clk auctionId user bidAmount =
     (case reg auctionId of
        None \<Rightarrow> (Auction_not_found, reg)
      | Some a \<Rightarrow>
          (case bidAmount of
             JNumber n \<Rightarrow>
               (if js_le n (Fin 0) then (Invalid_bid_amount, reg)
                else (case placeBid a clk user n of
                        (r, a') \<Rightarrow>
                          (Bid_outcome r auctionId (if success r then 200 else 400),
                           reg(auctionId \<mapsto> a'))))
           | _ \<Rightarrow> (Invalid_bid_amount, reg)))"

fun svc_success :: "service_result \<Rightarrow> bool" where
  "svc_success (Bid_outcome r i c) = success r"
| "svc_success r = False"


text \<open>The text of \<open>message\<close>, with the number a template literal inserts.\<close>

datatype message =
    Msg_Auction_has_ended
  | Msg_Bid_must_be_at_least number
  | Msg_Another_bid_is_being_processed
  | Msg_Outbid_Current_bid_is number
  | Msg_Bid_placed_successfully
  | Msg_Auction_not_found
  | Msg_Invalid_bid_amount

fun result_message :: "bid_result \<Rightarrow> message" where
  "result_message Auction_has_ended = Msg_Auction_has_ended"
| "result_message (Bid_must_be_at_least m) = Msg_Bid_must_be_at_least m"
| "result_message Another_bid_is_being_processed = Msg_Another_bid_is_being_processed"
| "result_message (Outbid c h) = Msg_Outbid_Current_bid_is c"
| "result_message (Bid_placed_successfully n p pb h) = Msg_Bid_placed_successfully"

fun svc_message :: "service_result \<Rightarrow> message" where
  "svc_message Auction_not_found = Msg_Auction_not_found"
| "svc_message Invalid_bid_amount = Msg_Invalid_bid_amount"
| "svc_message (Bid_outcome r i c) = result_message r"

fun svc_newBid :: "service_result \<Rightarrow> number option" where
  "svc_newBid (Bid_outcome r i c) = result_newBid r"
| "svc_newBid r = None"

fun svc_previousBid :: "service_result \<Rightarrow> number option" where
  "svc_previousBid (Bid_outcome r i c) = result_previousBid r"
| "svc_previousBid r = None"

fun svc_previousBidder :: "service_result \<Rightarrow> string option" where
  "svc_previousBidder (Bid_outcome r i c) = result_previousBidder r"
| "svc_previousBidder r = None"

fun svc_highestBidder :: "service_result \<Rightarrow> string option" where
  "svc_highestBidder (Bid_outcome r i c) = result_highestBidder r"
| "svc_highestBidder r = None"

fun svc_currentBid :: "service_result \<Rightarrow> number option" where
  "svc_currentBid (Bid_outcome r i c) = result_currentBid r"
| "svc_currentBid r = None"

fun svc_minimumBid :: "service_result \<Rightarrow> number option" where
  "svc_minimumBid (Bid_outcome r i c) = result_minimumBid r"
| "svc_minimumBid r = None"

text \<open>
  \<open>getBidHistory\<close> returns an array in both branches. The result type has \<open>None\<close> for
  \<open>null\<close>, the value the route below compares it with.
\<close>

definition getBidHistory :: "registry \<Rightarrow> string \<Rightarrow> bid list option" where
  "getBidHistory reg auctionId =
     (case reg auctionId of Some a \<Rightarrow> Some (bidHistory a) | None \<Rightarrow> Some [])"

section \<open>The route GET /items/:auctionId/bid-history (server.js)\<close>

datatype http_body =
    Failure string
  | Bid_history "bid list" int

text \<open>The status code and the JSON body; \<open>now\<close> is the reading for \<open>serverTime\<close>.\<close>

definition bid_history_route :: "registry \<Rightarrow> string \<Rightarrow> int \<Rightarrow> nat \<times> http_body" where
  "bid_history_route reg auctionId now =
     (case getBidHistory reg auctionId of
        None \<Rightarrow> (404, Failure ''Auction not found'')
      | Some history \<Rightarrow> (200, Bid_history history now))"

section \<open>The socket handlers (utils/socketHandlers.js)\<close>

text \<open>
  A connection has the identifier Socket.IO gave it and the \<open>userId\<close> of its handshake
  query, if any. \<open>socket.handshake.query.userId || socket.id\<close> takes the socket's
  identifier when the query has no \<open>userId\<close> or an empty one.
\<close>

record socket =
  socket_id :: string
  query_userId :: "string option"

definition userId_of :: "socket \<Rightarrow> string" where
  "userId_of sock =
     (case query_userId sock of
        None \<Rightarrow> socket_id sock
      | Some u \<Rightarrow> if u = [] then socket_id sock else u)"

text \<open>
  The server: the registry of auctions and the rooms of the Socket.IO adapter, a room
  name mapped to the identifiers of the sockets in it. A room without members does not
  exist for the adapter, which is the empty set here.
\<close>

record server =
  auctions :: registry
  rooms :: "string \<Rightarrow> string set"

definition join :: "server \<Rightarrow> string \<Rightarrow> string \<Rightarrow> server" where
  "join st sid room = st\<lparr>rooms := (rooms st)(room := insert sid (rooms st room))\<rparr>"

definition leave :: "server \<Rightarrow> string \<Rightarrow> string \<Rightarrow> server" where
  "leave st sid room = st\<lparr>rooms := (rooms st)(room := rooms st room - {sid})\<rparr>"

text \<open>
  An emission goes to one socket (\<open>socket.emit\<close>) or to the members of a room
  (\<open>io.to(room).emit\<close>).
\<close>

datatype target = To_socket string | To_room string

fun recipients :: "server \<Rightarrow> target \<Rightarrow> string set" where
  "recipients st (To_socket sid) = {sid}"
| "recipients st (To_room room) = rooms st room"

text \<open>
  The events the handlers emit, with the properties of their payloads in the order of
  the source. A property read from the result of the service is optional.
\<close>

datatype payload =
    AUCTION_STATE "snapshot option" int
  | USER_JOINED string nat
  | USER_LEFT string nat
  | BID_UPDATE string "number option" "string option" "string option" "number option" int
  | BID_SUCCESS string "number option"
  | OUTBID string "number option" string int
  | BID_ERROR string message "number option" "number option" int
  | HEARTBEAT_ACK int js_value

text \<open>
  The events a socket receives from its client, and the two the library raises itself:
  on connection a socket is put into the room named by its own identifier, on
  disconnection it is taken out of every room. The payload of \<open>BID_PLACED\<close> is an object
  with \<open>auctionId\<close> and \<open>amount\<close>; that of \<open>HEARTBEAT\<close> is read as
  \<open>clientData?.clientTime\<close>.
\<close>

datatype inbound =
    On_connection
  | On_JOIN_AUCTION string
  | On_LEAVE_AUCTION string
  | On_BID_PLACED string js_value
  | On_HEARTBEAT js_value
  | On_GET_AUCTION_STATE string
  | On_disconnect

text \<open>
  The readings of the server's clock while one event is handled: those of \<open>placeBid\<close>,
  those of \<open>getState\<close>, that of the first payload that carries a time, and that of
  \<open>OUTBID\<close>.
\<close>

record server_clock =
  clk_bid :: bid_clock
  clk_state :: state_clock
  now_emit :: int
  now_outbid :: int

definition auction_room :: "string \<Rightarrow> string" where
  "auction_room auctionId = ''auction:'' @ auctionId"

definition user_room :: "string \<Rightarrow> string" where
  "user_room user = ''user:'' @ user"

text \<open>
  In \<open>result.previousBidder && result.previousBidder !== userId\<close> both \<open>null\<close> and the
  empty string are falsy, so \<open>OUTBID\<close> is emitted for a previous bidder that is a
  non-empty string other than the bidder.
\<close>

definition on_BID_PLACED ::
  "server \<Rightarrow> socket \<Rightarrow> server_clock \<Rightarrow> string \<Rightarrow> js_value \<Rightarrow> server \<times> (target \<times> payload) list" where
  "on_BID_PLACED st sock clk auctionId amount =
     (case service_placeBid (auctions st) (clk_bid clk) auctionId (userId_of sock) amount of
        (result, reg') \<Rightarrow>
          (st\<lparr>auctions := reg'\<rparr>,
           if svc_success result
           then [(To_room (auction_room auctionId),
                  BID_UPDATE auctionId (svc_newBid result) (svc_highestBidder result)
                    (svc_previousBidder result) (svc_previousBid result) (now_emit clk)),
                 (To_socket (socket_id sock), BID_SUCCESS auctionId (svc_newBid result))]
                @ (case svc_previousBidder result of
                     None \<Rightarrow> []
                   | Some previousBidder \<Rightarrow>
                       if previousBidder \<noteq> [] \<and> previousBidder \<noteq> userId_of sock
                       then [(To_room (user_room previousBidder),
                              OUTBID auctionId (svc_newBid result) (userId_of sock)
                                (now_outbid clk))]
                       else [])
           else [(To_socket (socket_id sock),
                  BID_ERROR auctionId (svc_message result) (svc_currentBid result)
                    (svc_minimumBid result) (now_emit clk))]))"

definition on_JOIN_AUCTION ::
  "server \<Rightarrow> socket \<Rightarrow> server_clock \<Rightarrow> string \<Rightarrow> server \<times> (target \<times> payload) list" where
  "on_JOIN_AUCTION st sock clk auctionId =
     (let st' = join st (socket_id sock) (auction_room auctionId) in
        (st',
         case getAuction (auctions st') auctionId (clk_state clk) of
           None \<Rightarrow> []
         | Some auctionState \<Rightarrow>
             [(To_socket (socket_id sock), AUCTION_STATE (Some auctionState) (now_emit clk)),
              (To_room (auction_room auctionId),
               USER_JOINED auctionId (card (rooms st' (auction_room auctionId))))]))"

definition on_LEAVE_AUCTION ::
  "server \<Rightarrow> socket \<Rightarrow> string \<Rightarrow> server \<times> (target \<times> payload) list" where
  "on_LEAVE_AUCTION st sock auctionId =
     (let st' = leave st (socket_id sock) (auction_room auctionId) in
        (st',
         [(To_room (auction_room auctionId),
           USER_LEFT auctionId (card (rooms st' (auction_room auctionId))))]))"

fun handle ::
  "server \<Rightarrow> socket \<Rightarrow> server_clock \<Rightarrow> inbound \<Rightarrow> server \<times> (target \<times> payload) list" where
  "handle st sock clk On_connection = (join st (socket_id sock) (socket_id sock), [])"
| "handle st sock clk (On_JOIN_AUCTION auctionId) = on_JOIN_AUCTION st sock clk auctionId"
| "handle st sock clk (On_LEAVE_AUCTION auctionId) = on_LEAVE_AUCTION st sock auctionId"
| "handle st sock clk (On_BID_PLACED auctionId amount) = on_BID_PLACED st sock clk auctionId amount"
| "handle st sock clk (On_HEARTBEAT clientTime) =
     (st, [(To_socket (socket_id sock), HEARTBEAT_ACK (now_emit clk) clientTime)])"
| "handle st sock clk (On_GET_AUCTION_STATE auctionId) =
     (st, [(To_socket (socket_id sock),
            AUCTION_STATE (getAuction (auctions st) auctionId (clk_state clk)) (now_emit clk))])"
| "handle st sock clk On_disconnect =
     (st\<lparr>rooms := (\<lambda>room. rooms st room - {socket_id sock})\<rparr>, [])"

text \<open>A run of the server: the events in the order they are handled.\<close>

type_synonym arrival = "socket \<times> server_clock \<times> inbound"

fun run :: "server \<Rightarrow> arrival list \<Rightarrow> server \<times> (target \<times> payload) list" where
  "run st [] = (st, [])"
| "run st ((sock, clk, ev) # evs) =
     (case handle st sock clk ev of
        (st', out) \<Rightarrow> (case run st' evs of (st'', outs) \<Rightarrow> (st'', out @ outs)))"

text \<open>What a socket receives of a list of emissions, given the rooms.\<close>

definition received :: "server \<Rightarrow> (target \<times> payload) list \<Rightarrow> string \<Rightarrow> payload list" where
  "received st out sid = map snd (filter (\<lambda>e. sid \<in> recipients st (fst e)) out)"

fun is_OUTBID :: "payload \<Rightarrow> bool" where
  "is_OUTBID (OUTBID i n u t) = True"
| "is_OUTBID p = False"

text \<open>
  Two runs that differ only in the \<open>clientTime\<close> of their \<open>HEARTBEAT\<close> events, and two
  lists of emissions that differ only in the \<open>clientTime\<close> echoed.
\<close>

fun same_but_clientTime :: "inbound \<Rightarrow> inbound \<Rightarrow> bool" where
  "same_but_clientTime (On_HEARTBEAT x) (On_HEARTBEAT y) = True"
| "same_but_clientTime e e' = (e = e')"

definition same_arrival :: "arrival \<Rightarrow> arrival \<Rightarrow> bool" where
  "same_arrival x y =
     (fst x = fst y \<and> fst (snd x) = fst (snd y) \<and> same_but_clientTime (snd (snd x)) (snd (snd y)))"

fun same_but_echo :: "target \<times> payload \<Rightarrow> target \<times> payload \<Rightarrow> bool" where
  "same_but_echo (t, HEARTBEAT_ACK s x) (t', HEARTBEAT_ACK s' y) = (t = t' \<and> s = s')"
| "same_but_echo e e' = (e = e')"

section \<open>The client's clock (client/src/context/AuctionContext.js)\<close>

text \<open>
  The client keeps the offset between the server's clock and its own. \<open>now\<close> is the
  client's \<open>Date.now()\<close>.
\<close>

record client =
  timeOffset :: int
  serverTime :: int

definition syncServerTime :: "client \<Rightarrow> int \<Rightarrow> int \<Rightarrow> client" where
  "syncServerTime c newServerTime now =
     c\<lparr>timeOffset := newServerTime - now, serverTime := newServerTime\<rparr>"

definition getClientServerTime :: "client \<Rightarrow> int \<Rightarrow> int" where
  "getClientServerTime c now = now + timeOffset c"

section \<open>A concrete auction\<close>

text \<open>
  The scenario of the specification: an auction that starts at 50 and ends at time
  300000, bidders X and Y on two connections, and a clock that stands still while one
  call or one event is handled.
\<close>

definition camera :: auction where
  "camera = Auction_new ''a1'' ''Vintage Camera'' (Fin 50) 300000 0"

definition instant :: "int \<Rightarrow> bid_clock" where
  "instant t = \<lparr>now_check = t, now_recheck = t, now_stamp = t\<rparr>"

definition tick :: "int \<Rightarrow> server_clock" where
  "tick t = \<lparr>clk_bid = instant t, clk_state = \<lparr>now_remaining = t, now_active = t\<rparr>,
             now_emit = t, now_outbid = t\<rparr>"

definition socket_X :: socket where
  "socket_X = \<lparr>socket_id = ''s1'', query_userId = Some ''X''\<rparr>"

definition socket_Y :: socket where
  "socket_Y = \<lparr>socket_id = ''s2'', query_userId = Some ''Y''\<rparr>"

definition server0 :: server where
  "server0 = \<lparr>auctions = [''a1'' \<mapsto> camera], rooms = (\<lambda>room. {})\<rparr>"

text \<open>Both connect and join the room of the auction, then X bids 60.\<close>

definition X_leads :: "arrival list" where
  "X_leads =
     [(socket_X, tick 1, On_connection), (socket_Y, tick 2, On_connection),
      (socket_X, tick 3, On_JOIN_AUCTION ''a1''), (socket_Y, tick 4, On_JOIN_AUCTION ''a1''),
      (socket_X, tick 5, On_BID_PLACED ''a1'' (JNumber (Fin 60)))]"


text \<open>Operations whose readings of the clock are all at or after the deadline of the camera.\<close>

definition late_ops :: "auction_op list" where
  "late_ops =
     [Op_placeBid (instant 300000) ''Z'' (Fin 70),
      Op_getState \<lparr>now_remaining = 300001, now_active = 300002\<rparr>,
      Op_placeBid \<lparr>now_check = 300003, now_recheck = 300004, now_stamp = 300005\<rparr> ''X'' (Fin 1000),
      Op_isActive 300006, Op_getTimeRemaining 300007, Op_getMinimumNextBid]"

text \<open>
  The amounts the service turns away with its test
  \<open>typeof bidAmount !== 'number' || bidAmount <= 0\<close>: a value that is not a number, and
  a number that is zero or negative.
\<close>

fun turned_away :: "js_value \<Rightarrow> bool" where
  "turned_away (JNumber n) = js_le n (Fin 0)"
| "turned_away v = True"

text \<open>Then Y bids 70.\<close>

definition Y_outbids :: "server \<times> (target \<times> payload) list" where
  "Y_outbids =
     handle (fst (run server0 X_leads)) socket_Y (tick 6)
       (On_BID_PLACED ''a1'' (JNumber (Fin 70)))"

text \<open>
  Two runs that differ only in the \<open>clientTime\<close> of a heartbeat: X joins, sends a
  heartbeat, bids 60 in time and 70 at the deadline.
\<close>

definition heartbeat_run :: "js_value \<Rightarrow> arrival list" where
  "heartbeat_run clientTime =
     [(socket_X, tick 1, On_connection), (socket_X, tick 2, On_JOIN_AUCTION ''a1''),
      (socket_X, tick 3, On_HEARTBEAT clientTime),
      (socket_X, tick 4, On_BID_PLACED ''a1'' (JNumber (Fin 60))),
      (socket_X, tick 300000, On_BID_PLACED ''a1'' (JNumber (Fin 70)))]"


definition X_bids_max_safe :: "bid_call list" where
  "X_bids_max_safe = [(instant 1000, ''X'', Fin 9007199254740991)]"

text \<open>
  A race for the price of 50: X and Y both bid 60. X is handled first and leads, as in
  the run above; then the bid of Y is handled.
\<close>

definition Y_loses_race :: "server \<times> (target \<times> payload) list" where
  "Y_loses_race =
     handle (fst (run server0 X_leads)) socket_Y (tick 5)
       (On_BID_PLACED ''a1'' (JNumber (Fin 60)))"


section \<open>Arithmetic on whole numbers\<close>

text \<open>
  A whole number of magnitude below \<open>2^53\<close> is a binary64 value, so a sum of whole
  numbers that stays below \<open>2^53\<close> is exact.
\<close>

lemma round_half_even_of_int: "round_half_even (of_int m) = m"
  by (simp add: round_half_even_def)

lemma exponent_of_int:
  assumes "n \<noteq> 0" and "\<bar>n\<bar> < 2 ^ 53"
  shows "0 \<le> exponent (of_int n)" and "exponent (of_int n) \<le> 52"
proof -
  have pos: "0 < \<bar>n\<bar>" using assms(1) by simp
  from pos have "1 \<le> \<bar>n\<bar>" by linarith
  then have "(of_int 1 :: rat) \<le> of_int \<bar>n\<bar>" by (simp only: of_int_le_iff)
  then have one: "(1::rat) \<le> \<bar>of_int n\<bar>" by simp
  then have e: "exponent (of_int n) = bitlen \<bar>n\<bar> - 1"
    by (simp add: exponent_def flip: of_int_abs)
  have "bitlen \<bar>n\<bar> \<le> 53"
    using assms(2) by (simp add: bitlen_le_iff_power)
  moreover have "1 \<le> bitlen \<bar>n\<bar>"
    using pos by (simp add: bitlen_ge_iff_power)
  ultimately show "0 \<le> exponent (of_int n)" and "exponent (of_int n) \<le> 52"
    by (simp_all add: e)
qed

lemma round_double_of_int:
  assumes "\<bar>n\<bar> < 2 ^ 53"
  shows "round_double (of_int n) = Fin (of_int n)"
proof (cases "n = 0")
  case True
  then show ?thesis by (simp add: round_double_def)
next
  case False
  define k where "k = nat (52 - exponent (of_int n))"
  from exponent_of_int [OF False assms]
  have e: "max (exponent (of_int n) - 52) (- 1074) = - int k"
    by (simp add: k_def)
  have p: "(2::rat) powi (- int k) = inverse (2 ^ k)"
    by (simp add: power_int_def inverse_eq_divide power_one_over)
  have q: "of_int n / (2::rat) powi (- int k) = of_int (n * 2 ^ k)"
    by (simp add: p divide_inverse)
  have v: "of_int (round_half_even (of_int n / (2::rat) powi (- int k))) * (2::rat) powi (- int k)
      = of_int n"
    unfolding q round_half_even_of_int by (simp add: p divide_inverse)
  have "\<bar>(of_int n :: rat)\<bar> < 2 ^ 53"
    using assms by (metis of_int_abs of_int_less_numeral_power_cancel_iff)
  moreover have "(2::rat) ^ 53 < 2 ^ 1024" by simp
  ultimately have b: "(of_int n :: rat) < 2 ^ 1024" "- (2 ^ 1024) < (of_int n :: rat)"
    by linarith+
  from False have nz: "(of_int n :: rat) \<noteq> 0" by simp
  show ?thesis
    using b nz by (simp add: round_double_def Let_def e v del: power_int_minus)
qed

lemma round_double_numeral:
  "(numeral w :: int) < 2 ^ 53 \<Longrightarrow> round_double (numeral w) = Fin (numeral w)"
  using round_double_of_int [of "numeral w"] by simp

lemma js_plus_whole:
  "\<bar>a + b\<bar> < 2 ^ 53 \<Longrightarrow> js_plus (Fin (of_int a)) (Fin (of_int b)) = Fin (of_int (a + b))"
  using round_double_of_int [of "a + b"] by simp

lemma safe_amount_whole:
  assumes "safe_amount n"
  obtains k where "n = Fin (of_int k)" and "\<bar>k\<bar> < 2 ^ 53 - 10"
proof (cases n)
  case (Fin r)
  with assms have w: "r = of_int \<lfloor>r\<rfloor>" and b: "\<bar>r\<bar> < 2 ^ 53 - 10"
    by (simp_all add: safe_amount_def)
  from b have "\<bar>(of_int \<lfloor>r\<rfloor> :: rat)\<bar> < of_int (2 ^ 53 - 10)"
    using w by simp
  then have "\<bar>\<lfloor>r\<rfloor>\<bar> < 2 ^ 53 - 10"
    by (simp only: of_int_less_iff flip: of_int_abs)
  with w Fin that show ?thesis by blast
qed (use assms in \<open>simp_all add: safe_amount_def\<close>)

lemma safe_amount_plus_10:
  assumes "safe_amount n"
  obtains k where "n = Fin (of_int k)" and "\<bar>k\<bar> < 2 ^ 53 - 10"
    and "js_plus n (Fin 10) = Fin (of_int (k + 10))"
proof -
  from assms obtain k where k: "n = Fin (of_int k)" "\<bar>k\<bar> < 2 ^ 53 - 10"
    by (rule safe_amount_whole)
  from k(2) have "\<bar>k + 10\<bar> < 2 ^ 53" by simp
  from js_plus_whole [OF this] have "js_plus n (Fin 10) = Fin (of_int (k + 10))"
    by (simp add: k(1))
  with k that show ?thesis by blast
qed


section \<open>The bid state machine\<close>

subsection \<open>A call that finds the lock flag clear\<close>

lemma placeBid_run_idle:
  "\<not> biddingLock a \<Longrightarrow>
   placeBid_run a clk user bidAmount =
     (if endTime a \<le> now_check clk then (Ret_ended, Auction_has_ended, a)
      else if js_less bidAmount (js_plus (currentBid a) (minBidIncrement a))
        then (Ret_too_low,
              Bid_must_be_at_least (js_plus (currentBid a) (minBidIncrement a)), a)
      else if endTime a \<le> now_recheck clk then (Ret_locked_ended, Auction_has_ended, a)
      else (Ret_committed,
            Bid_placed_successfully bidAmount (currentBid a) (highestBidder a) user,
            a\<lparr>currentBid := bidAmount, highestBidder := Some user,
              bidHistory := bidHistory a @
                [\<lparr>bid_userId = user, bid_amount = bidAmount,
                  bid_timestamp = now_stamp clk\<rparr>]\<rparr>))"
  by (cases a)
    (simp add: placeBid_run_def isActive_def getMinimumNextBid_def finally_unlock_def Let_def)

lemma placeBid_idle:
  "\<not> biddingLock a \<Longrightarrow>
   placeBid a clk user bidAmount =
     (if endTime a \<le> now_check clk then (Auction_has_ended, a)
      else if js_less bidAmount (js_plus (currentBid a) (minBidIncrement a))
        then (Bid_must_be_at_least (js_plus (currentBid a) (minBidIncrement a)), a)
      else if endTime a \<le> now_recheck clk then (Auction_has_ended, a)
      else (Bid_placed_successfully bidAmount (currentBid a) (highestBidder a) user,
            a\<lparr>currentBid := bidAmount, highestBidder := Some user,
              bidHistory := bidHistory a @
                [\<lparr>bid_userId = user, bid_amount = bidAmount,
                  bid_timestamp = now_stamp clk\<rparr>]\<rparr>))"
  by (simp add: placeBid_def placeBid_run_idle)





subsection \<open>The invariants are kept by calls with whole amounts\<close>







lemmas number_eval = round_double_numeral safe_amount_def safe_calls_def

lemmas auction_eval = camera_def Auction_new_def instant_def placeBid_def placeBid_run_def
  isActive_def getMinimumNextBid_def finally_unlock_def Let_def





subsection \<open>The deadline\<close>

lemma placeBid_closed:
  "endTime a \<le> now_check clk \<Longrightarrow> placeBid a clk user bidAmount = (Auction_has_ended, a)"
  by (simp add: placeBid_def placeBid_run_def isActive_def)

lemma apply_op_closed:
  "list_all (\<lambda>t. endTime a \<le> t) (op_reads x) \<Longrightarrow> apply_op a x = a"
  by (cases x) (simp_all add: placeBid_closed)

lemma apply_ops_closed: "after_deadline a ops \<Longrightarrow> apply_ops a ops = a"
  by (induction ops) (simp_all add: after_deadline_def apply_op_closed)

text \<open>
  Claim C2. A \<open>placeBid\<close> call whose first reading of the clock is at or after the
  deadline, the deadline instant included, returns the rejection "Auction has ended" and
  leaves the auction as it was. Once every reading of the clock is at or after the
  deadline, no sequence of operations on the auction changes its current bid, its highest
  bidder or its history: the auction is terminal.
\<close>

theorem closed_from_deadline:
  "(endTime a \<le> now_check clk \<longrightarrow>
      placeBid a clk user bidAmount = (Auction_has_ended, a))
   \<and> (after_deadline a ops \<longrightarrow>
      apply_ops a ops = a
      \<and> currentBid (apply_ops a ops) = currentBid a
      \<and> highestBidder (apply_ops a ops) = highestBidder a
      \<and> bidHistory (apply_ops a ops) = bidHistory a)"
  by (simp add: placeBid_closed apply_ops_closed)

theorem closed_from_deadline_witness:
  "endTime camera \<le> now_check (instant 300000)
   \<and> placeBid camera (instant 300000) ''Z'' (Fin 70) = (Auction_has_ended, camera)
   \<and> after_deadline camera late_ops
   \<and> apply_ops camera late_ops = camera"
proof -
  have e: "endTime camera \<le> now_check (instant 300000)"
    by (simp add: camera_def Auction_new_def instant_def)
  have l: "after_deadline camera late_ops"
    by (simp add: after_deadline_def late_ops_def camera_def Auction_new_def instant_def)
  from closed_from_deadline [of camera "instant 300000" "''Z''" "Fin 70" late_ops] e l
  show ?thesis by simp
qed

subsection \<open>The minimum increment\<close>




subsection \<open>The snapshot\<close>

text \<open>
  Claim C9, as the specification states it, fails after the deadline: five milliseconds
  after the end of the camera auction the snapshot's \<open>timeRemaining\<close> is 0 and not -5.
\<close>

theorem getState_timeRemaining_counterexample:
  "snap_timeRemaining (getState camera \<lparr>now_remaining = 300005, now_active = 300005\<rparr>)
     \<noteq> endTime camera - 300005"
  by (simp add: getState_def getTimeRemaining_def camera_def Auction_new_def)

text \<open>
  Claim C9, amended. \<open>getState\<close> changes nothing and returns the auction's id, title,
  starting price, current bid, highest bidder, end time and increment, with
  \<open>timeRemaining\<close> the larger of 0 and the end time minus the clock, and \<open>isActive\<close>
  true exactly when the clock is before the end time.
\<close>

theorem getState_snapshot:
  "getState a clk =
     \<lparr> snap_id = auction_id a, snap_title = title a, snap_startingPrice = startingPrice a,
       snap_currentBid = currentBid a, snap_highestBidder = highestBidder a,
       snap_endTime = endTime a,
       snap_timeRemaining = max 0 (endTime a - now_remaining clk),
       snap_isActive = (now_active clk < endTime a),
       snap_minBidIncrement = minBidIncrement a \<rparr>
   \<and> apply_op a (Op_getState clk) = a"
  by (simp add: getState_def getTimeRemaining_def isActive_def)

theorem getState_snapshot_witness:
  "getState camera \<lparr>now_remaining = 1000, now_active = 300000\<rparr> =
     \<lparr> snap_id = ''a1'', snap_title = ''Vintage Camera'', snap_startingPrice = Fin 50,
       snap_currentBid = Fin 50, snap_highestBidder = None, snap_endTime = 300000,
       snap_timeRemaining = 299000, snap_isActive = False, snap_minBidIncrement = Fin 10 \<rparr>"
  using getState_snapshot [of camera "\<lparr>now_remaining = 1000, now_active = 300000\<rparr>"]
  by (simp add: camera_def Auction_new_def)

section \<open>The registry and the history route\<close>

lemma bid_history_route_unknown:
  "reg auctionId = None \<Longrightarrow> bid_history_route reg auctionId now = (200, Bid_history [] now)"
  by (simp add: bid_history_route_def getBidHistory_def)

lemma bid_history_route_status: "fst (bid_history_route reg auctionId now) = 200"
  by (simp add: bid_history_route_def getBidHistory_def split: option.splits)

text \<open>
  Claim C7 at an identifier the registry does not hold: \<open>getBidHistory\<close> returns the
  empty array, not \<open>null\<close>, so the route's test \<open>history === null\<close> fails and the answer
  is status 200 with an empty history instead of status 404.
\<close>

theorem bid_history_unknown_id:
  "auctions server0 ''nope'' = None
   \<and> getBidHistory (auctions server0) ''nope'' = Some []
   \<and> bid_history_route (auctions server0) ''nope'' 7 = (200, Bid_history [] 7)"
  by (simp add: server0_def bid_history_route_def getBidHistory_def)


text \<open>
  The test of the service lets \<open>NaN\<close> through: its type is \<open>number\<close> and it is not
  \<open><= 0\<close>. The Auction then commits it, since \<open>NaN < minBid\<close> is false as well.
\<close>

lemma NaN_amount_committed:
  "\<not> turned_away (JNumber NaN)
   \<and> fst (service_placeBid (auctions server0) (instant 1000) ''a1'' ''X'' (JNumber NaN)) =
       Bid_outcome (Bid_placed_successfully NaN (Fin 50) None ''X'') ''a1'' 200"
  by (simp add: service_placeBid_def server0_def auction_eval number_eval)



section \<open>Evaluating the handlers on the concrete auction\<close>

lemmas eval_defs = round_double_numeral server0_def socket_X_def socket_Y_def tick_def
  instant_def camera_def
  Auction_new_def on_BID_PLACED_def on_JOIN_AUCTION_def service_placeBid_def placeBid_def
  placeBid_run_def isActive_def getMinimumNextBid_def finally_unlock_def userId_of_def join_def
  leave_def getAuction_def getState_def getTimeRemaining_def auction_room_def user_room_def
  Let_def

lemma run_Cons:
  "fst (run st ((sock, clk, ev) # evs)) = fst (run (fst (handle st sock clk ev)) evs)"
  "snd (run st ((sock, clk, ev) # evs)) =
     snd (handle st sock clk ev) @ snd (run (fst (handle st sock clk ev)) evs)"
  by (simp_all split: prod.splits)

lemma run_X_leads:
  "fst (run server0 X_leads) =
     \<lparr>auctions = [''a1'' \<mapsto> camera\<lparr>currentBid := Fin 60, highestBidder := Some ''X'',
         bidHistory := [\<lparr>bid_userId = ''X'', bid_amount = Fin 60, bid_timestamp = 5\<rparr>]\<rparr>],
      rooms = ((\<lambda>room. {})
        (''s1'' := {''s1''}, ''s2'' := {''s2''}, ''auction:a1'' := {''s2'', ''s1''}))\<rparr>"
  by (simp add: X_leads_def eval_defs)

section \<open>The implementation against the algorithm of the specification\<close>

text \<open>
  Claim C10, as stated, fails in three ways. When the clock passes the deadline between
  the two \<open>isActive()\<close> calls of one \<open>placeBid\<close>, the call leaves through the deadline
  rejection inside the \<open>try\<close> block. For a low bid of 55 on the camera the algorithm of
  the specification returns the current bid 50 with the minimum 60, and the code an
  object without \<open>currentBid\<close>, which is not that result. And when X leads with
  9007199254740991, the specification rejects a bid of 9007199254741000 against the
  exact minimum 9007199254741001, while the code accepts it.
\<close>

theorem placeBid_differs_from_spec:
  "\<not> biddingLock camera
   \<and> fst (placeBid_run camera
        \<lparr>now_check = 299999, now_recheck = 300000, now_stamp = 300000\<rparr> ''X'' (Fin 60)) =
       Ret_locked_ended
   \<and> fst (spec_placeBid camera 1000 ''Y'' (Fin 55)) = BID_TOO_LOW (Fin 50) (Fin 60)
   \<and> fst (placeBid camera (instant 1000) ''Y'' (Fin 55)) = Bid_must_be_at_least (Fin 60)
   \<and> as_BidResult (fst (placeBid camera (instant 1000) ''Y'' (Fin 55))) \<noteq>
       Some (fst (spec_placeBid camera 1000 ''Y'' (Fin 55)))
   \<and> \<not> biddingLock (snd (placeBids camera X_bids_max_safe))
   \<and> fst (spec_placeBid (snd (placeBids camera X_bids_max_safe)) 2000 ''Y''
        (Fin 9007199254741000)) =
       BID_TOO_LOW (Fin 9007199254740991) (Fin 9007199254741001)
   \<and> success (fst (placeBid (snd (placeBids camera X_bids_max_safe)) (instant 2000) ''Y''
        (Fin 9007199254741000)))"
proof -
  have r: "round_double 9007199254741001 = Fin 9007199254741000"
    by code_simp
  show ?thesis
    by (simp add: X_bids_max_safe_def spec_placeBid_def auction_eval number_eval r)
qed

text \<open>
  Claim C10, amended. When the lock flag is clear on entry: if the clock readings of the
  call coincide and the current bid is a whole number of magnitude below \<open>2^53 - 10\<close>
  with the increment 10, \<open>placeBid\<close> leaves the same auction as the three steps of the
  specification, returns the same result when the bid is turned down for the deadline or
  accepted, and for a low bid rejects like the specification with the same minimum bid.
  For any readings and prices the call never leaves through "Another bid is being
  processed" nor through the "Outbid!" rejection inside the lock; it leaves through the
  deadline rejection inside the lock exactly when the bid is not below the minimum and
  the clock passes the deadline between the first and the second reading, and then
  returns "Auction has ended" with the auction unchanged; and the lock flag is clear
  after the call.
\<close>

theorem placeBid_refines_spec:
  assumes "\<not> biddingLock a"
  shows "(now_recheck clk = now_check clk \<and> now_stamp clk = now_check clk
          \<and> safe_amount (currentBid a) \<and> minBidIncrement a = Fin 10 \<longrightarrow>
            snd (placeBid a clk user bidAmount) =
              snd (spec_placeBid a (now_check clk) user bidAmount)
            \<and> (case fst (spec_placeBid a (now_check clk) user bidAmount) of
                  BID_TOO_LOW c m \<Rightarrow>
                    fst (placeBid a clk user bidAmount) = Bid_must_be_at_least m
                | r \<Rightarrow> as_BidResult (fst (placeBid a clk user bidAmount)) = Some r))
     \<and> fst (placeBid_run a clk user bidAmount) \<noteq> Ret_lock_busy
     \<and> fst (placeBid_run a clk user bidAmount) \<noteq> Ret_locked_outbid
     \<and> (fst (placeBid_run a clk user bidAmount) = Ret_locked_ended) =
         (now_check clk < endTime a
          \<and> \<not> js_less bidAmount (js_plus (currentBid a) (minBidIncrement a))
          \<and> endTime a \<le> now_recheck clk)
     \<and> (fst (placeBid_run a clk user bidAmount) = Ret_locked_ended \<longrightarrow>
          placeBid a clk user bidAmount = (Auction_has_ended, a))
     \<and> \<not> biddingLock (snd (placeBid a clk user bidAmount))"
proof -
  have exact: "exact_plus (currentBid a) (minBidIncrement a) =
      js_plus (currentBid a) (minBidIncrement a)"
    if "safe_amount (currentBid a)" and "minBidIncrement a = Fin 10"
  proof -
    from that(1) obtain k where "currentBid a = Fin (of_int k)"
      and "js_plus (currentBid a) (Fin 10) = Fin (of_int (k + 10))"
      by (rule safe_amount_plus_10)
    with that(2) show ?thesis by simp
  qed
  have 1: "now_recheck clk = now_check clk \<and> now_stamp clk = now_check clk
          \<and> safe_amount (currentBid a) \<and> minBidIncrement a = Fin 10 \<longrightarrow>
            snd (placeBid a clk user bidAmount) =
              snd (spec_placeBid a (now_check clk) user bidAmount)
            \<and> (case fst (spec_placeBid a (now_check clk) user bidAmount) of
                  BID_TOO_LOW c m \<Rightarrow>
                    fst (placeBid a clk user bidAmount) = Bid_must_be_at_least m
                | r \<Rightarrow> as_BidResult (fst (placeBid a clk user bidAmount)) = Some r)"
    using assms exact
    by (simp add: placeBid_idle spec_placeBid_def Let_def)
  have 2: "fst (placeBid_run a clk user bidAmount) \<noteq> Ret_lock_busy
     \<and> fst (placeBid_run a clk user bidAmount) \<noteq> Ret_locked_outbid
     \<and> (fst (placeBid_run a clk user bidAmount) = Ret_locked_ended) =
         (now_check clk < endTime a
          \<and> \<not> js_less bidAmount (js_plus (currentBid a) (minBidIncrement a))
          \<and> endTime a \<le> now_recheck clk)
     \<and> (fst (placeBid_run a clk user bidAmount) = Ret_locked_ended \<longrightarrow>
          placeBid a clk user bidAmount = (Auction_has_ended, a))
     \<and> \<not> biddingLock (snd (placeBid a clk user bidAmount))"
    using assms by (simp add: placeBid_def placeBid_run_idle)
  from 1 2 show ?thesis by (rule conjI)
qed

theorem placeBid_refines_spec_witness:
  "\<not> biddingLock camera \<and> safe_amount (currentBid camera)
   \<and> minBidIncrement camera = Fin 10
   \<and> snd (placeBid camera (instant 1000) ''X'' (Fin 60)) =
       snd (spec_placeBid camera 1000 ''X'' (Fin 60))
   \<and> fst (spec_placeBid camera 1000 ''X'' (Fin 60)) = Accepted (Fin 60) ''X'' None (Fin 50)
   \<and> as_BidResult (fst (placeBid camera (instant 1000) ''X'' (Fin 60))) =
       Some (Accepted (Fin 60) ''X'' None (Fin 50))
   \<and> fst (placeBid_run camera (instant 1000) ''X'' (Fin 60)) \<noteq> Ret_locked_ended
   \<and> \<not> biddingLock (snd (placeBid camera (instant 1000) ''X'' (Fin 60)))"
proof -
  have i: "\<not> biddingLock camera" by (simp add: camera_def Auction_new_def)
  have v: "now_recheck (instant 1000) = now_check (instant 1000)"
    "now_stamp (instant 1000) = now_check (instant 1000)"
    "safe_amount (currentBid camera)" "minBidIncrement camera = Fin 10"
    by (simp_all add: instant_def camera_def Auction_new_def number_eval)
  have n: "now_check (instant 1000) = 1000" "now_check (instant 1000) < endTime camera"
    "\<not> endTime camera \<le> now_recheck (instant 1000)"
    by (simp_all add: instant_def camera_def Auction_new_def)
  have s: "fst (spec_placeBid camera 1000 ''X'' (Fin 60)) = Accepted (Fin 60) ''X'' None (Fin 50)"
    by (simp add: spec_placeBid_def camera_def Auction_new_def Let_def)
  note t = placeBid_refines_spec [OF i, of "instant 1000" "''X''" "Fin 60"]
  from t v have a: "snd (placeBid camera (instant 1000) ''X'' (Fin 60)) =
      snd (spec_placeBid camera (now_check (instant 1000)) ''X'' (Fin 60))"
    by blast
  from t v have "case fst (spec_placeBid camera (now_check (instant 1000)) ''X'' (Fin 60)) of
      BID_TOO_LOW c m \<Rightarrow>
        fst (placeBid camera (instant 1000) ''X'' (Fin 60)) = Bid_must_be_at_least m
    | r \<Rightarrow> as_BidResult (fst (placeBid camera (instant 1000) ''X'' (Fin 60))) = Some r"
    by blast
  then have b: "as_BidResult (fst (placeBid camera (instant 1000) ''X'' (Fin 60))) =
       Some (Accepted (Fin 60) ''X'' None (Fin 50))"
    by (simp add: n(1) s)
  from t n(2,3) have c: "fst (placeBid_run camera (instant 1000) ''X'' (Fin 60)) \<noteq>
      Ret_locked_ended"
    by simp
  from t have d: "\<not> biddingLock (snd (placeBid camera (instant 1000) ''X'' (Fin 60)))"
    by blast
  from a have a': "snd (placeBid camera (instant 1000) ''X'' (Fin 60)) =
       snd (spec_placeBid camera 1000 ''X'' (Fin 60))"
    by (simp only: n(1))
  from i v(3,4) a' s b c d show ?thesis by blast
qed

section \<open>What a rejected bidder is told\<close>

text \<open>
  Claim C4 at a race for the price of 50. X and Y both bid 60; X is handled first, is
  accepted with \<open>newBid\<close> 60 and leads. The bid of Y is then below the minimum 70 and is
  rejected before the lock with "Bid must be at least 70" and \<open>minimumBid\<close> 70: the
  returned object has no \<open>currentBid\<close>, and the \<open>BID_ERROR\<close> event sent to Y carries an
  undefined \<open>currentBid\<close>, not the winner's 60. The rejection that has \<open>currentBid\<close>,
  "Outbid!" inside the lock, is never returned.
\<close>

theorem race_loser_report:
  "(To_socket ''s1'', BID_SUCCESS ''a1'' (Some (Fin 60))) \<in> set (snd (run server0 X_leads))
   \<and> (case auctions (fst (run server0 X_leads)) ''a1'' of
         None \<Rightarrow> False
       | Some a \<Rightarrow>
           currentBid a = Fin 60
           \<and> placeBid a (instant 5) ''Y'' (Fin 60) = (Bid_must_be_at_least (Fin 70), a)
           \<and> result_currentBid (fst (placeBid a (instant 5) ''Y'' (Fin 60))) = None
           \<and> result_minimumBid (fst (placeBid a (instant 5) ''Y'' (Fin 60))) = Some (Fin 70))
   \<and> snd Y_loses_race =
       [(To_socket ''s2'',
         BID_ERROR ''a1'' (Msg_Bid_must_be_at_least (Fin 70)) None (Some (Fin 70)) 5)]"
proof -
  have e: "snd (run server0 X_leads) =
     [(To_socket ''s1'', AUCTION_STATE (Some (getState camera \<lparr>now_remaining = 3, now_active = 3\<rparr>)) 3),
      (To_room ''auction:a1'', USER_JOINED ''a1'' 1),
      (To_socket ''s2'', AUCTION_STATE (Some (getState camera \<lparr>now_remaining = 4, now_active = 4\<rparr>)) 4),
      (To_room ''auction:a1'', USER_JOINED ''a1'' 2),
      (To_room ''auction:a1'',
       BID_UPDATE ''a1'' (Some (Fin 60)) (Some ''X'') None (Some (Fin 50)) 5),
      (To_socket ''s1'', BID_SUCCESS ''a1'' (Some (Fin 60)))]"
    by (simp add: X_leads_def eval_defs)
  show ?thesis
    unfolding Y_loses_race_def run_X_leads e
    by (simp add: eval_defs)
qed

section \<open>Emissions and rooms\<close>

subsection \<open>The room an outbid notification goes to\<close>

text \<open>
  The handlers put a socket into rooms named \<open>auction:...\<close> only, and the library into
  the room named by the socket's identifier. So a room named \<open>user:...\<close> never has a
  member, as long as no socket identifier begins with \<open>user:\<close>.
\<close>

lemma user_room_not_auction_room: "user_room u \<noteq> auction_room x"
  by (simp add: auction_room_def user_room_def)

lemma handle_user_rooms:
  assumes "\<forall>u. rooms st (user_room u) = {}" and "take 5 (socket_id sock) \<noteq> ''user:''"
  shows "\<forall>u. rooms (fst (handle st sock clk ev)) (user_room u) = {}"
proof -
  have ne: "user_room u \<noteq> socket_id sock" for u
  proof
    assume "user_room u = socket_id sock"
    then have "take 5 (socket_id sock) = take 5 (user_room u)" by simp
    with assms(2) show False by (simp add: user_room_def)
  qed
  show ?thesis
  proof (cases ev)
    case (On_BID_PLACED x y)
    then show ?thesis using assms(1)
      by (simp add: on_BID_PLACED_def split: prod.splits)
  qed (use assms(1) ne user_room_not_auction_room in
      \<open>simp_all add: join_def leave_def on_JOIN_AUCTION_def on_LEAVE_AUCTION_def Let_def\<close>)
qed

lemma run_user_rooms:
  assumes "\<forall>u. rooms st (user_room u) = {}"
    and "\<forall>x \<in> set evs. take 5 (socket_id (fst x)) \<noteq> ''user:''"
  shows "\<forall>u. rooms (fst (run st evs)) (user_room u) = {}"
  using assms
proof (induction evs arbitrary: st)
  case Nil
  then show ?case by simp
next
  case (Cons x evs)
  obtain sock clk ev where x: "x = (sock, clk, ev)" by (cases x) auto
  from Cons.prems x have "\<forall>u. rooms (fst (handle st sock clk ev)) (user_room u) = {}"
    by (intro handle_user_rooms) auto
  from Cons.IH [OF this] Cons.prems(2) show ?case
    unfolding x run_Cons by simp
qed

text \<open>
  What an accepted bid emits: the update to the room of the auction, the confirmation to
  the bidder, and \<open>OUTBID\<close> exactly when the previous bidder is a non-empty string
  other than the bidder, so never for a leader who raises their own bid.
\<close>

lemma on_BID_PLACED_accepted:
  assumes "auctions st auctionId = Some a" and "\<not> biddingLock a" and "\<not> js_le n (Fin 0)"
    and "now_check (clk_bid clk) < endTime a" and "now_recheck (clk_bid clk) < endTime a"
    and "\<not> js_less n (js_plus (currentBid a) (minBidIncrement a))"
  shows "snd (on_BID_PLACED st sock clk auctionId (JNumber n)) =
     [(To_room (auction_room auctionId),
       BID_UPDATE auctionId (Some n) (Some (userId_of sock)) (highestBidder a)
         (Some (currentBid a)) (now_emit clk)),
      (To_socket (socket_id sock), BID_SUCCESS auctionId (Some n))]
     @ (case highestBidder a of
          None \<Rightarrow> []
        | Some p \<Rightarrow>
            if p \<noteq> [] \<and> p \<noteq> userId_of sock
            then [(To_room (user_room p),
                   OUTBID auctionId (Some n) (userId_of sock) (now_outbid clk))]
            else [])"
  using assms
  by (cases "highestBidder a")
    (simp_all add: on_BID_PLACED_def service_placeBid_def placeBid_idle)

lemma outbid_emitted_iff:
  assumes "auctions st auctionId = Some a" and "\<not> biddingLock a" and "\<not> js_le n (Fin 0)"
    and "now_check (clk_bid clk) < endTime a" and "now_recheck (clk_bid clk) < endTime a"
    and "\<not> js_less n (js_plus (currentBid a) (minBidIncrement a))"
  shows "(\<exists>e \<in> set (snd (on_BID_PLACED st sock clk auctionId (JNumber n))).
            is_OUTBID (snd e)) =
         (\<exists>p. highestBidder a = Some p \<and> p \<noteq> [] \<and> p \<noteq> userId_of sock)"
  unfolding on_BID_PLACED_accepted [OF assms]
  by (cases "highestBidder a") simp_all

text \<open>
  Claim C5 at the scenario of the specification: X and Y are both connected and in the
  room of the auction, X leads with 60, and Y bids 70. The bid is accepted and \<open>OUTBID\<close>
  is emitted to the room \<open>user:X\<close>. That room has no member, so the connection of X, the
  previous leader, does not receive it.
\<close>

theorem outbid_reaches_nobody:
  "userId_of socket_X = ''X''
   \<and> (case auctions (fst (run server0 X_leads)) ''a1'' of
         None \<Rightarrow> False | Some a \<Rightarrow> highestBidder a = Some ''X'')
   \<and> socket_id socket_X \<in> rooms (fst Y_outbids) (auction_room ''a1'')
   \<and> snd Y_outbids =
       [(To_room ''auction:a1'',
         BID_UPDATE ''a1'' (Some (Fin 70)) (Some ''Y'') (Some ''X'') (Some (Fin 60)) 6),
        (To_socket ''s2'', BID_SUCCESS ''a1'' (Some (Fin 70))),
        (To_room ''user:X'', OUTBID ''a1'' (Some (Fin 70)) ''Y'' 6)]
   \<and> recipients (fst Y_outbids) (To_room ''user:X'') = {}
   \<and> filter is_OUTBID (received (fst Y_outbids) (snd Y_outbids) (socket_id socket_X)) = []"
  unfolding Y_outbids_def run_X_leads
  by (simp add: eval_defs received_def)

subsection \<open>Heartbeats\<close>

lemma same_but_echo_refl: "same_but_echo e e"
proof (cases e)
  case (Pair t p)
  then show ?thesis by (cases p) simp_all
qed

lemma list_all2_same_but_echo_refl: "list_all2 same_but_echo out out"
  by (simp add: list_all2_refl same_but_echo_refl)

lemma handle_same_but_clientTime:
  assumes "same_but_clientTime ev ev'"
  shows "fst (handle st sock clk ev) = fst (handle st sock clk ev')
     \<and> list_all2 same_but_echo (snd (handle st sock clk ev)) (snd (handle st sock clk ev'))"
proof (cases "\<exists>x y. ev = On_HEARTBEAT x \<and> ev' = On_HEARTBEAT y")
  case True
  then show ?thesis by auto
next
  case False
  with assms have "ev = ev'"
    by (cases ev; cases ev') simp_all
  then show ?thesis by (simp add: list_all2_same_but_echo_refl)
qed

lemma run_same_but_clientTime:
  assumes "list_all2 same_arrival evs evs'"
  shows "fst (run st evs) = fst (run st evs')
     \<and> list_all2 same_but_echo (snd (run st evs)) (snd (run st evs'))"
  using assms
proof (induction evs evs' arbitrary: st rule: list_all2_induct)
  case Nil
  then show ?case by simp
next
  case (Cons x xs y ys)
  obtain sock clk ev where x: "x = (sock, clk, ev)" by (cases x) auto
  obtain ev' where y: "y = (sock, clk, ev')" and s: "same_but_clientTime ev ev'"
    using Cons.hyps(1) x by (cases y) (auto simp: same_arrival_def)
  from handle_same_but_clientTime [OF s, of st sock clk]
    Cons.IH [of "fst (handle st sock clk ev)"]
  show ?case
    unfolding x y run_Cons by (simp add: list_all2_appendI)
qed

text \<open>
  On the client the last sample wins: the offset after a synchronisation does not depend
  on the offset before it, and the server never receives it.
\<close>

lemma syncServerTime_last_sample:
  "timeOffset (syncServerTime c s now) = timeOffset (syncServerTime c' s now)
   \<and> getClientServerTime (syncServerTime c s now) now = s"
  by (simp add: syncServerTime_def getClientServerTime_def)

text \<open>
  Claim C6. Two runs of the server from the same state that differ only in the
  \<open>clientTime\<close> values of their \<open>HEARTBEAT\<close> events pass through the same server states
  (the auctions among them) at every point, so every bid is decided on the same state
  with the same input and the same server clock, and they emit the same events, the bid
  results among them, up to the \<open>clientTime\<close> echoed in \<open>HEARTBEAT_ACK\<close>. Handling a
  \<open>HEARTBEAT\<close> leaves the server state as it was and only answers the sender.
\<close>

theorem clientTime_independence:
  "(list_all2 same_arrival evs evs' \<longrightarrow>
      fst (run st evs) = fst (run st evs')
      \<and> list_all2 same_but_echo (snd (run st evs)) (snd (run st evs'))
      \<and> (\<forall>n. fst (run st (take n evs)) = fst (run st (take n evs'))))
   \<and> handle st sock clk (On_HEARTBEAT clientTime) =
       (st, [(To_socket (socket_id sock), HEARTBEAT_ACK (now_emit clk) clientTime)])"
  using run_same_but_clientTime [of evs evs' st]
    run_same_but_clientTime [OF list_all2_takeI, of evs evs' st]
  by simp

theorem clientTime_independence_witness:
  "list_all2 same_arrival (heartbeat_run (JNumber (Fin 3))) (heartbeat_run (JNumber (Fin 987654321)))
   \<and> heartbeat_run (JNumber (Fin 3)) \<noteq> heartbeat_run (JNumber (Fin 987654321))
   \<and> fst (run server0 (heartbeat_run (JNumber (Fin 3)))) =
       fst (run server0 (heartbeat_run (JNumber (Fin 987654321))))
   \<and> list_all2 same_but_echo (snd (run server0 (heartbeat_run (JNumber (Fin 3)))))
       (snd (run server0 (heartbeat_run (JNumber (Fin 987654321)))))"
proof -
  have s: "list_all2 same_arrival (heartbeat_run (JNumber (Fin 3)))
      (heartbeat_run (JNumber (Fin 987654321)))"
    by (simp add: heartbeat_run_def same_arrival_def)
  have d: "heartbeat_run (JNumber (Fin 3)) \<noteq> heartbeat_run (JNumber (Fin 987654321))"
    by (simp add: heartbeat_run_def)
  from clientTime_independence
    [of "heartbeat_run (JNumber (Fin 3))" "heartbeat_run (JNumber (Fin 987654321))" server0] s d
  show ?thesis by blast
qed

end
